theory Spec2Isabelle
  imports Main
begin

section \<open>The game session of the Node relay server\<close>

text \<open>
  The server embedded in \<^verbatim>\<open>CORRECT_DEPLOYMENT.md\<close> holds every game in a process-wide
  \<^verbatim>\<open>Map\<close> and drives one \<^verbatim>\<open>TicTacToeGame\<close> object per game. The class mutates
  \<^verbatim>\<open>this\<close> in place and reports success as a boolean; the model passes the object in
  and returns the boolean together with the object as it is after the call.

  The strings \<^verbatim>\<open>'X'\<close>, \<^verbatim>\<open>'O'\<close> are the two marks (\<open>MarkX\<close>, \<open>MarkO\<close>); \<^verbatim>\<open>status\<close> is one of
  \<^verbatim>\<open>'waiting'\<close>, \<^verbatim>\<open>'playing'\<close>, \<^verbatim>\<open>'finished'\<close>; \<^verbatim>\<open>winner\<close> is \<^verbatim>\<open>null\<close>,
  a mark or \<^verbatim>\<open>'draw'\<close>. A board cell is \<^verbatim>\<open>null\<close> (\<open>None\<close>) or a mark.
\<close>

datatype mark = MarkX | MarkO

datatype game_status = Waiting | Playing | Finished

datatype outcome = Won mark | Draw

record player =
  p_id :: string
  p_name :: string
  symbol :: mark

record game =
  g_id :: string
  board :: "mark option list"
  currentPlayer :: mark
  players :: "player list"
  status :: game_status
  winner :: "outcome option"
  createdAt :: nat

text \<open>
  \<^verbatim>\<open>constructor(gameId)\<close>; \<open>now\<close> is the value of \<^verbatim>\<open>new Date()\<close> at the call.
\<close>

definition TicTacToeGame :: "string \<Rightarrow> nat \<Rightarrow> game" where
  "TicTacToeGame gameId now =
     \<lparr> g_id = gameId,
       board = replicate 9 None,
       currentPlayer = MarkX,
       players = [],
       status = Waiting,
       winner = None,
       createdAt = now \<rparr>"

definition addPlayer :: "string \<Rightarrow> string \<Rightarrow> game \<Rightarrow> bool \<times> game" where
  "addPlayer playerId playerName g =
     (if length (players g) < 2 then
        let sym = (if length (players g) = 0 then MarkX else MarkO);
            g1 = g\<lparr> players := players g @ [\<lparr> p_id = playerId, p_name = playerName, symbol = sym \<rparr>] \<rparr>;
            g2 = (if length (players g1) = 2 then g1\<lparr> status := Playing \<rparr> else g1)
        in (True, g2)
      else (False, g))"

text \<open>
  \<^verbatim>\<open>this.board[position]\<close>: a read outside the array yields \<^verbatim>\<open>undefined\<close>, which is
  \<open>None\<close> here; inside it yields the cell, \<open>Some None\<close> for \<^verbatim>\<open>null\<close> and
  \<open>Some (Some m)\<close> for a mark. The position of a request is modelled as an integer; any
  other JSON value that is not the canonical name of an array index reads a value
  different from \<^verbatim>\<open>null\<close> as an out-of-range integer does.
\<close>

definition board_at :: "mark option list \<Rightarrow> int \<Rightarrow> mark option option" where
  "board_at b i = (if 0 \<le> i \<and> i < int (length b) then Some (b ! nat i) else None)"

definition winPatterns :: "(int \<times> int \<times> int) list" where
  "winPatterns =
     [(0, 1, 2), (3, 4, 5), (6, 7, 8),
      (0, 3, 6), (1, 4, 7), (2, 5, 8),
      (0, 4, 8), (2, 4, 6)]"

text \<open>
  \<^verbatim>\<open>this.board[a] && this.board[a] === this.board[b] && this.board[a] === this.board[c]\<close>:
  the first conjunct is truthy exactly for a mark.
\<close>

definition line_held :: "mark option list \<Rightarrow> int \<times> int \<times> int \<Rightarrow> bool" where
  "line_held b pat =
     (case pat of (a, b', c) \<Rightarrow>
        (case board_at b a of Some (Some m) \<Rightarrow> True | _ \<Rightarrow> False)
        \<and> board_at b a = board_at b b'
        \<and> board_at b a = board_at b c)"

definition checkWinner :: "game \<Rightarrow> bool" where
  "checkWinner g = list_ex (line_held (board g)) winPatterns"

text \<open>
  \<^verbatim>\<open>this.currentPlayer === 'X' ? 'O' : 'X'\<close>, the expression that passes the turn.
\<close>

definition other_mark :: "mark \<Rightarrow> mark" where
  "other_mark m = (if m = MarkX then MarkO else MarkX)"

text \<open>
  \<^verbatim>\<open>makeMove(playerId, position)\<close>. The write \<^verbatim>\<open>this.board[position] = ...\<close> is reached
  only after \<^verbatim>\<open>this.board[position] !== null\<close> was false, so the position names an
  existing cell there and the write is a list update.
\<close>

definition makeMove :: "string \<Rightarrow> int \<Rightarrow> game \<Rightarrow> bool \<times> game" where
  "makeMove playerId position g =
     (if status g \<noteq> Playing then (False, g)
      else if board_at (board g) position \<noteq> Some None then (False, g)
      else
        (case find (\<lambda>p. p_id p = playerId) (players g) of
           None \<Rightarrow> (False, g)
         | Some pl \<Rightarrow>
             if symbol pl \<noteq> currentPlayer g then (False, g)
             else
               let g1 = g\<lparr> board := (board g)[nat position := Some (currentPlayer g)] \<rparr>;
                   g2 = (if checkWinner g1 then
                           g1\<lparr> winner := Some (Won (currentPlayer g1)), status := Finished \<rparr>
                         else if list_all (\<lambda>cell. cell \<noteq> None) (board g1) then
                           g1\<lparr> status := Finished, winner := Some Draw \<rparr>
                         else
                           g1\<lparr> currentPlayer := other_mark (currentPlayer g1) \<rparr>)
               in (True, g2)))"

subsection \<open>Snapshots\<close>

text \<open>
  \<^verbatim>\<open>getState()\<close> builds an object literal; it is modelled as the list of its properties
  in the order of the literal, so that the presence of a property can be stated.
\<close>

datatype json = JNull | JStr string | JDate nat | JArr "json list" | JObj "(string \<times> json) list"

definition mark_str :: "mark \<Rightarrow> string" where
  "mark_str m = (case m of MarkX \<Rightarrow> ''X'' | MarkO \<Rightarrow> ''O'')"

definition status_str :: "game_status \<Rightarrow> string" where
  "status_str s = (case s of Waiting \<Rightarrow> ''waiting'' | Playing \<Rightarrow> ''playing'' | Finished \<Rightarrow> ''finished'')"

definition cell_json :: "mark option \<Rightarrow> json" where
  "cell_json c = (case c of None \<Rightarrow> JNull | Some m \<Rightarrow> JStr (mark_str m))"

definition winner_json :: "outcome option \<Rightarrow> json" where
  "winner_json w =
     (case w of None \<Rightarrow> JNull | Some (Won m) \<Rightarrow> JStr (mark_str m) | Some Draw \<Rightarrow> JStr ''draw'')"

definition player_json :: "player \<Rightarrow> json" where
  "player_json p =
     JObj [(''id'', JStr (p_id p)), (''name'', JStr (p_name p)), (''symbol'', JStr (mark_str (symbol p)))]"

definition getState :: "game \<Rightarrow> (string \<times> json) list" where
  "getState g =
     [(''id'', JStr (g_id g)),
      (''board'', JArr (map cell_json (board g))),
      (''currentPlayer'', JStr (mark_str (currentPlayer g))),
      (''players'', JArr (map player_json (players g))),
      (''status'', JStr (status_str (status g))),
      (''winner'', winner_json (winner g)),
      (''createdAt'', JDate (createdAt g))]"

subsection \<open>The REST handlers\<close>

text \<open>
  \<^verbatim>\<open>games\<close> is the process-wide map from game id to game object. A handler returns its
  JSON response, the message it broadcasts to the game's subscribers (if any) and the map
  afterwards. The objects in the map are the ones the class methods mutate, so the object
  as it is after the call is stored whatever the method returned.

  \<^verbatim>\<open>app.post('/api/games')\<close> never reads \<^verbatim>\<open>req.body\<close>: the identity sent with the
  request is a parameter the handler ignores. \<open>gameId\<close> is the value of \<^verbatim>\<open>uuidv4()\<close>.
  Participant ids and names are strings, as in a request that carries them; the position
  is the integer of the request.
\<close>

datatype response = Success "(string \<times> json) list" | Failure nat string

type_synonym games = "string \<rightharpoonup> game"

definition post_games ::
  "string \<Rightarrow> string \<Rightarrow> string \<Rightarrow> nat \<Rightarrow> games \<Rightarrow> response \<times> (string \<times> json) list option \<times> games" where
  "post_games playerId playerName gameId now gs =
     (let g = TicTacToeGame gameId now
      in (Success (getState g), None, gs(gameId \<mapsto> g)))"

definition post_join ::
  "string \<Rightarrow> string \<Rightarrow> string \<Rightarrow> games \<Rightarrow> response \<times> (string \<times> json) list option \<times> games" where
  "post_join gameId playerId playerName gs =
     (case gs gameId of
        None \<Rightarrow> (Failure 404 ''Game not found'', None, gs)
      | Some g \<Rightarrow>
          (case addPlayer playerId playerName g of (joined, g') \<Rightarrow>
             if \<not> joined then (Failure 400 ''Game is full'', None, gs(gameId \<mapsto> g'))
             else (Success (getState g'), Some (getState g'), gs(gameId \<mapsto> g'))))"

definition post_move ::
  "string \<Rightarrow> string \<Rightarrow> int \<Rightarrow> games \<Rightarrow> response \<times> (string \<times> json) list option \<times> games" where
  "post_move gameId playerId position gs =
     (case gs gameId of
        None \<Rightarrow> (Failure 404 ''Game not found'', None, gs)
      | Some g \<Rightarrow>
          (case makeMove playerId position g of (moveSuccess, g') \<Rightarrow>
             if \<not> moveSuccess then (Failure 400 ''Invalid move'', None, gs(gameId \<mapsto> g'))
             else (Success (getState g'), Some (getState g'), gs(gameId \<mapsto> g'))))"

subsection \<open>Sequences of operations on one session\<close>

text \<open>
  After its construction a game object is touched by \<^verbatim>\<open>addPlayer\<close> and \<^verbatim>\<open>makeMove\<close>
  only. \<open>run g ops\<close> is the object after the calls \<open>ops\<close>, in order, whatever each returned.
\<close>

datatype op = Join string string | Move string int

fun apply_op :: "game \<Rightarrow> op \<Rightarrow> game" where
  "apply_op g (Join playerId playerName) = snd (addPlayer playerId playerName g)"
| "apply_op g (Move playerId position) = snd (makeMove playerId position g)"

definition run :: "game \<Rightarrow> op list \<Rightarrow> game" where
  "run g ops = foldl apply_op g ops"

subsection \<open>Notions of the specification\<close>

text \<open>
  The specification speaks of the eight lines of the 3x3 grid, stored row by row: three
  rows, three columns and two diagonals; of a board that is full; of the mark assigned to
  a participant; and of a cell that holds a mark. These are written here from the
  specification's words, to be compared with what the code computes.
\<close>

definition grid_lines :: "nat list list" where
  "grid_lines =
     map (\<lambda>r. [3 * r, 3 * r + 1, 3 * r + 2]) [0..<3]
     @ map (\<lambda>c. [c, c + 3, c + 6]) [0..<3]
     @ [[0, 4, 8], [2, 4, 6]]"

definition three_equal :: "mark option list \<Rightarrow> bool" where
  "three_equal b = (\<exists>l \<in> set grid_lines. \<exists>m \<in> {MarkX, MarkO}. \<forall>i \<in> set l. b ! i = Some m)"

definition all_filled :: "mark option list \<Rightarrow> bool" where
  "all_filled b = (\<forall>i \<in> {0..<9}. b ! i \<noteq> None)"

definition assigned_mark :: "string \<Rightarrow> game \<Rightarrow> mark option" where
  "assigned_mark playerId g = map_option symbol (find (\<lambda>p. p_id p = playerId) (players g))"

definition cell_marked :: "mark option list \<Rightarrow> int \<Rightarrow> bool" where
  "cell_marked b i = (case board_at b i of Some (Some m) \<Rightarrow> True | _ \<Rightarrow> False)"

definition response_field :: "response \<Rightarrow> string \<Rightarrow> json option" where
  "response_field r k = (case r of Success s \<Rightarrow> map_of s k | Failure code msg \<Rightarrow> None)"

text \<open>
  What holds of a session however it was driven: nine cells, at most two players who hold
  the marks in joining order, the status \<^verbatim>\<open>'waiting'\<close> exactly below two players, and a
  winner exactly when finished.
\<close>

definition session_inv :: "game \<Rightarrow> bool" where
  "session_inv g =
     (length (board g) = 9
      \<and> length (players g) \<le> 2
      \<and> map symbol (players g) = take (length (players g)) [MarkX, MarkO]
      \<and> ((status g = Waiting) = (length (players g) < 2))
      \<and> ((winner g \<noteq> None) = (status g = Finished)))"

subsection \<open>A sample game\<close>

text \<open>
  Two participants join a fresh game and play four moves: X holds cells 0 and 1, O holds
  cells 3 and 4, and it is X's turn.
\<close>

definition demo_ops :: "op list" where
  "demo_ops =
     [Join ''p1'' ''Alice'', Join ''p2'' ''Bob'',
      Move ''p1'' 0, Move ''p2'' 3, Move ''p1'' 1, Move ''p2'' 4]"

definition demo_game :: game where
  "demo_game = run (TicTacToeGame ''g1'' 1000) demo_ops"

section \<open>Basic facts about the operations\<close>

lemma run_Nil: "run g [] = g" by (simp add: run_def)

lemma run_Cons: "run g (x # xs) = run (apply_op g x) xs" by (simp add: run_def)

lemma board_at_null_in_range:
  "board_at b i = Some c \<Longrightarrow> 0 \<le> i \<and> nat i < length b \<and> b ! nat i = c"
  by (auto simp: board_at_def split: if_splits)

lemma board_at_9:
  "length b = 9 \<Longrightarrow> board_at b i = (if 0 \<le> i \<and> i < 9 then Some (b ! nat i) else None)"
  by (simp add: board_at_def)

lemma addPlayer_full: "\<not> length (players g) < 2 \<Longrightarrow> addPlayer p n g = (False, g)"
  by (simp add: addPlayer_def)

lemma makeMove_rejected: "\<not> fst (makeMove p pos g) \<Longrightarrow> makeMove p pos g = (False, g)"
  by (auto simp: makeMove_def Let_def split: if_splits option.splits)

lemma makeMove_accepted:
  assumes "fst (makeMove p pos g)"
  shows "status g = Playing"
    and "board_at (board g) pos = Some None"
    and "\<exists>pl. find (\<lambda>q. p_id q = p) (players g) = Some pl \<and> symbol pl = currentPlayer g"
  using assms by (auto simp: makeMove_def Let_def split: if_splits option.splits)

lemma makeMove_iff:
  "fst (makeMove p pos g) \<longleftrightarrow>
     status g = Playing \<and> board_at (board g) pos = Some None
     \<and> map_option symbol (find (\<lambda>q. p_id q = p) (players g)) = Some (currentPlayer g)"
  by (auto simp: makeMove_def Let_def split: if_splits option.splits)

lemma makeMove_result:
  assumes "fst (makeMove p pos g)"
  shows "snd (makeMove p pos g) =
     (let g1 = g\<lparr> board := (board g)[nat pos := Some (currentPlayer g)] \<rparr>
      in if checkWinner g1 then g1\<lparr> winner := Some (Won (currentPlayer g)), status := Finished \<rparr>
         else if list_all (\<lambda>cell. cell \<noteq> None) (board g1) then g1\<lparr> status := Finished, winner := Some Draw \<rparr>
         else g1\<lparr> currentPlayer := other_mark (currentPlayer g) \<rparr>)"
  using assms by (auto simp: makeMove_def Let_def split: if_splits option.splits)

lemma makeMove_fields:
  "g_id (snd (makeMove p pos g)) = g_id g"
  "players (snd (makeMove p pos g)) = players g"
  "createdAt (snd (makeMove p pos g)) = createdAt g"
  "length (board (snd (makeMove p pos g))) = length (board g)"
  by (auto simp: makeMove_def Let_def split: if_splits option.splits)

lemma addPlayer_fields:
  "g_id (snd (addPlayer p n g)) = g_id g"
  "board (snd (addPlayer p n g)) = board g"
  "currentPlayer (snd (addPlayer p n g)) = currentPlayer g"
  "winner (snd (addPlayer p n g)) = winner g"
  "createdAt (snd (addPlayer p n g)) = createdAt g"
  by (auto simp: addPlayer_def Let_def)

lemma line_held_iff:
  assumes "length b = 9" "0 \<le> x" "x < 9" "0 \<le> y" "y < 9" "0 \<le> z" "z < 9"
  shows "line_held b (x, y, z) \<longleftrightarrow> (\<exists>m. b ! nat x = Some m \<and> b ! nat y = Some m \<and> b ! nat z = Some m)"
  using assms by (auto simp: line_held_def board_at_9 split: option.splits)

lemma mark_cases: "(\<exists>m \<in> {MarkX, MarkO}. P m) \<longleftrightarrow> (\<exists>m. P m)"
  by (metis insertCI mark.exhaust)

lemma grid_lines_eq:
  "grid_lines = [[0, 1, 2], [3, 4, 5], [6, 7, 8], [0, 3, 6], [1, 4, 7], [2, 5, 8], [0, 4, 8], [2, 4, 6]]"
  by code_simp

lemma three_equal_iff:
  "three_equal b \<longleftrightarrow>
     (\<exists>m. b ! 0 = Some m \<and> b ! 1 = Some m \<and> b ! 2 = Some m)
   \<or> (\<exists>m. b ! 3 = Some m \<and> b ! 4 = Some m \<and> b ! 5 = Some m)
   \<or> (\<exists>m. b ! 6 = Some m \<and> b ! 7 = Some m \<and> b ! 8 = Some m)
   \<or> (\<exists>m. b ! 0 = Some m \<and> b ! 3 = Some m \<and> b ! 6 = Some m)
   \<or> (\<exists>m. b ! 1 = Some m \<and> b ! 4 = Some m \<and> b ! 7 = Some m)
   \<or> (\<exists>m. b ! 2 = Some m \<and> b ! 5 = Some m \<and> b ! 8 = Some m)
   \<or> (\<exists>m. b ! 0 = Some m \<and> b ! 4 = Some m \<and> b ! 8 = Some m)
   \<or> (\<exists>m. b ! 2 = Some m \<and> b ! 4 = Some m \<and> b ! 6 = Some m)"
  unfolding three_equal_def grid_lines_eq mark_cases
  by (simp add: ex_disj_distrib)

lemma checkWinner_three_equal:
  assumes "length (board g) = 9"
  shows "checkWinner g = three_equal (board g)"
  using assms
  by (simp add: checkWinner_def winPatterns_def line_held_iff three_equal_iff)

lemma every_all_filled:
  assumes "length b = 9"
  shows "list_all (\<lambda>cell. cell \<noteq> None) b = all_filled b"
  using assms by (auto simp: list_all_length all_filled_def)

lemma session_inv_fresh: "session_inv (TicTacToeGame gameId now)"
  by (simp add: session_inv_def TicTacToeGame_def)

lemma session_inv_addPlayer:
  assumes "session_inv g"
  shows "session_inv (snd (addPlayer p n g))"
proof (cases "length (players g) < 2")
  case False
  then show ?thesis using assms by (simp add: addPlayer_full)
next
  case True
  then have "length (players g) = 0 \<or> length (players g) = 1" by arith
  then show ?thesis
    using assms by (auto simp: session_inv_def addPlayer_def Let_def)
qed

lemma session_inv_makeMove:
  assumes "session_inv g"
  shows "session_inv (snd (makeMove p pos g))"
proof (cases "fst (makeMove p pos g)")
  case False
  then show ?thesis using assms by (simp add: makeMove_rejected)
next
  case True
  have "status g = Playing" using makeMove_accepted(1)[OF True] .
  then show ?thesis
    using assms by (simp add: makeMove_result[OF True] session_inv_def Let_def)
qed

lemma session_inv_apply_op: "session_inv g \<Longrightarrow> session_inv (apply_op g x)"
  by (cases x) (simp_all add: session_inv_addPlayer session_inv_makeMove)

lemma session_inv_run: "session_inv g \<Longrightarrow> session_inv (run g ops)"
  by (induction ops arbitrary: g) (simp_all add: run_Nil run_Cons session_inv_apply_op)

lemma session_inv_reachable: "session_inv (run (TicTacToeGame gameId now) ops)"
  by (rule session_inv_run[OF session_inv_fresh])

lemma other_mark_neq: "other_mark m \<noteq> m"
  by (cases m) (simp_all add: other_mark_def)

lemma makeMove_keeps_marks:
  assumes "board_at (board g) i = Some (Some m)"
  shows "board_at (board (snd (makeMove p pos g))) i = Some (Some m)"
proof (cases "fst (makeMove p pos g)")
  case False
  then show ?thesis using assms by (simp add: makeMove_rejected)
next
  case True
  have free: "board_at (board g) pos = Some None" using makeMove_accepted(2)[OF True] .
  with assms have "i \<noteq> pos" by auto
  moreover have "0 \<le> pos" "0 \<le> i" using free assms by (auto dest: board_at_null_in_range)
  ultimately have "nat i \<noteq> nat pos" by simp
  then show ?thesis
    using assms by (auto simp: makeMove_result[OF True] Let_def board_at_def split: if_splits)
qed

lemma apply_op_keeps_marks:
  "board_at (board g) i = Some (Some m) \<Longrightarrow> board_at (board (apply_op g x)) i = Some (Some m)"
  by (cases x) (simp_all add: addPlayer_fields makeMove_keeps_marks)

section \<open>The claims\<close>

subsection \<open>C1\<close>

text \<open>
  Claim C1 as stated says that the session a create request returns and stores already has
  the requesting participant as its one player. The handler builds the game from the
  generated id alone: for a request carrying \<^verbatim>\<open>p1\<close> and \<^verbatim>\<open>Alice\<close>, the stored game and
  the returned snapshot have an empty player list.
\<close>

theorem create_session_has_no_player_counterexample:
  "map_option players (snd (snd (post_games ''p1'' ''Alice'' ''g1'' 1000 Map.empty)) ''g1'') = Some []
   \<and> response_field (fst (post_games ''p1'' ''Alice'' ''g1'' 1000 Map.empty)) ''players'' = Some (JArr [])"
  by (simp add: post_games_def TicTacToeGame_def getState_def response_field_def)

text \<open>
  Claim C1, amended. Whatever participant id and display name a create request carries,
  the handler answers with the snapshot of a fresh game and stores that game under the
  generated id: no players, status \<^verbatim>\<open>'waiting'\<close>, nothing broadcast. The creator becomes a
  player by joining afterwards: \<^verbatim>\<open>addPlayer\<close> on the fresh game succeeds, its single
  player is the joiner with the first mark, and the status is still \<^verbatim>\<open>'waiting'\<close>.
\<close>

theorem create_session_then_join:
  "post_games playerId playerName gameId now gs =
     (Success (getState (TicTacToeGame gameId now)), None, gs(gameId \<mapsto> TicTacToeGame gameId now))
   \<and> players (TicTacToeGame gameId now) = []
   \<and> status (TicTacToeGame gameId now) = Waiting
   \<and> response_field (fst (post_games playerId playerName gameId now gs)) ''players'' = Some (JArr [])
   \<and> response_field (fst (post_games playerId playerName gameId now gs)) ''status'' = Some (JStr ''waiting'')
   \<and> addPlayer playerId playerName (TicTacToeGame gameId now) =
       (True, (TicTacToeGame gameId now)
                \<lparr> players := [\<lparr> p_id = playerId, p_name = playerName, symbol = MarkX \<rparr>] \<rparr>)
   \<and> status (snd (addPlayer playerId playerName (TicTacToeGame gameId now))) = Waiting"
  by (simp add: post_games_def TicTacToeGame_def getState_def response_field_def addPlayer_def
      status_str_def Let_def)

subsection \<open>C2\<close>

text \<open>
  Claim C2 as stated says that a move that ends the game stamps a conclusion time which
  the snapshot exposes next to \<^verbatim>\<open>createdAt\<close>. In the sample game X completes the top row
  at cell 2: the move is accepted, the game is finished, and the snapshot has the seven
  properties of \<^verbatim>\<open>getState\<close>, none of them a conclusion time.
\<close>

theorem no_conclusion_timestamp_counterexample:
  "fst (makeMove ''p1'' 2 demo_game)
   \<and> status (snd (makeMove ''p1'' 2 demo_game)) = Finished
   \<and> map_of (getState (snd (makeMove ''p1'' 2 demo_game))) ''concludedAt'' = None
   \<and> map fst (getState (snd (makeMove ''p1'' 2 demo_game)))
       = [''id'', ''board'', ''currentPlayer'', ''players'', ''status'', ''winner'', ''createdAt'']"
  by code_simp

text \<open>
  Claim C2, amended. An accepted move that finishes the game sets the winner to the mark
  that moved or to the draw marker and leaves \<^verbatim>\<open>createdAt\<close> as it was. The game keeps no
  conclusion time: the snapshot consists of exactly \<^verbatim>\<open>id\<close>, \<^verbatim>\<open>board\<close>,
  \<^verbatim>\<open>currentPlayer\<close>, \<^verbatim>\<open>players\<close>, \<^verbatim>\<open>status\<close>, \<^verbatim>\<open>winner\<close> and \<^verbatim>\<open>createdAt\<close>.
\<close>

theorem concluding_move_record:
  assumes "makeMove playerId position g = (True, g')" and "status g' = Finished"
  shows "(winner g' = Some (Won (currentPlayer g)) \<or> winner g' = Some Draw)
     \<and> createdAt g' = createdAt g
     \<and> map fst (getState g') = [''id'', ''board'', ''currentPlayer'', ''players'', ''status'', ''winner'', ''createdAt'']
     \<and> map_of (getState g') ''createdAt'' = Some (JDate (createdAt g))
     \<and> map_of (getState g') ''concludedAt'' = None"
proof -
  from assms(1) have acc: "fst (makeMove playerId position g)" by simp
  have g': "g' = snd (makeMove playerId position g)" using assms(1) by simp
  have st: "status g = Playing" using makeMove_accepted(1)[OF acc] .
  have "winner g' = Some (Won (currentPlayer g)) \<or> winner g' = Some Draw"
    using assms(2) st unfolding g' makeMove_result[OF acc] by (simp add: Let_def split: if_splits)
  moreover have "createdAt g' = createdAt g" unfolding g' by (rule makeMove_fields)
  ultimately show ?thesis by (simp add: getState_def)
qed

theorem concluding_move_record_witness:
  "makeMove ''p1'' 2 demo_game = (True, snd (makeMove ''p1'' 2 demo_game))
   \<and> status (snd (makeMove ''p1'' 2 demo_game)) = Finished
   \<and> createdAt (snd (makeMove ''p1'' 2 demo_game)) = createdAt demo_game
   \<and> map_of (getState (snd (makeMove ''p1'' 2 demo_game))) ''concludedAt'' = None"
proof -
  have h1: "makeMove ''p1'' 2 demo_game = (True, snd (makeMove ''p1'' 2 demo_game))" by code_simp
  have h2: "status (snd (makeMove ''p1'' 2 demo_game)) = Finished" by code_simp
  show ?thesis using h1 h2 concluding_move_record[OF h1 h2] by simp
qed

subsection \<open>C3\<close>

text \<open>
  Claim C3. For an accepted move on a nine-cell board, the board afterwards is the board
  before with the mover's mark written at the position. If one of the eight lines of the
  grid then holds three equal marks, the game is finished and the winner is the mark just
  played; otherwise, if all nine cells are filled, the game is finished as a draw;
  otherwise the game continues: the status stays \<^verbatim>\<open>'playing'\<close> and the winner field is
  not touched.
\<close>

theorem move_outcome:
  assumes "length (board g) = 9" and "makeMove playerId position g = (True, g')"
  shows "board g' = (board g)[nat position := Some (currentPlayer g)]
     \<and> (if three_equal (board g') then status g' = Finished \<and> winner g' = Some (Won (currentPlayer g))
        else if all_filled (board g') then status g' = Finished \<and> winner g' = Some Draw
        else status g' = Playing \<and> winner g' = winner g)"
proof -
  let ?g1 = "g\<lparr> board := (board g)[nat position := Some (currentPlayer g)] \<rparr>"
  from assms(2) have acc: "fst (makeMove playerId position g)" by simp
  have len: "length (board ?g1) = 9" using assms(1) by simp
  have g': "g' = (if checkWinner ?g1 then ?g1\<lparr> winner := Some (Won (currentPlayer g)), status := Finished \<rparr>
         else if list_all (\<lambda>cell. cell \<noteq> None) (board ?g1) then ?g1\<lparr> status := Finished, winner := Some Draw \<rparr>
         else ?g1\<lparr> currentPlayer := other_mark (currentPlayer g) \<rparr>)"
    using makeMove_result[OF acc] assms(2) by (simp add: Let_def)
  have b: "board g' = board ?g1" by (simp add: g')
  have st: "status g = Playing" using makeMove_accepted(1)[OF acc] .
  show ?thesis
    unfolding b
    using checkWinner_three_equal[OF len] every_all_filled[of "board ?g1"] assms(1) st
    by (simp add: g')
qed

theorem move_outcome_witness:
  "length (board demo_game) = 9
   \<and> makeMove ''p1'' 2 demo_game = (True, snd (makeMove ''p1'' 2 demo_game))
   \<and> three_equal (board (snd (makeMove ''p1'' 2 demo_game)))
   \<and> status (snd (makeMove ''p1'' 2 demo_game)) = Finished
   \<and> winner (snd (makeMove ''p1'' 2 demo_game)) = Some (Won MarkX)
   \<and> makeMove ''p1'' 5 demo_game = (True, snd (makeMove ''p1'' 5 demo_game))
   \<and> \<not> three_equal (board (snd (makeMove ''p1'' 5 demo_game)))
   \<and> \<not> all_filled (board (snd (makeMove ''p1'' 5 demo_game)))
   \<and> status (snd (makeMove ''p1'' 5 demo_game)) = Playing"
proof -
  have h: "length (board demo_game) = 9" by code_simp
  have m1: "makeMove ''p1'' 2 demo_game = (True, snd (makeMove ''p1'' 2 demo_game))" by code_simp
  have l1: "three_equal (board (snd (makeMove ''p1'' 2 demo_game)))" by code_simp
  have m2: "makeMove ''p1'' 5 demo_game = (True, snd (makeMove ''p1'' 5 demo_game))" by code_simp
  have l2: "\<not> three_equal (board (snd (makeMove ''p1'' 5 demo_game)))" by code_simp
  have f2: "\<not> all_filled (board (snd (makeMove ''p1'' 5 demo_game)))" by code_simp
  have cp: "currentPlayer demo_game = MarkX" by code_simp
  show ?thesis
    using h m1 l1 m2 l2 f2 cp move_outcome[OF h m1] move_outcome[OF h m2] by simp
qed

subsection \<open>C4\<close>

text \<open>
  Claim C4 as stated makes three conditions the only causes of a rejection. In the sample
  game it is X's turn, \<^verbatim>\<open>p1\<close> holds X and the game is being played; \<^verbatim>\<open>p1\<close> asks for
  position 9. The read \<^verbatim>\<open>board[9]\<close> is \<^verbatim>\<open>undefined\<close>, no cell there holds a mark, and
  the move is rejected all the same.
\<close>

theorem move_rejection_counterexample:
  "\<not> fst (makeMove ''p1'' 9 demo_game)
   \<and> status demo_game = Playing
   \<and> \<not> cell_marked (board demo_game) 9
   \<and> assigned_mark ''p1'' demo_game = Some (currentPlayer demo_game)"
  by code_simp

text \<open>
  Claim C4, amended. On a nine-cell board a move is rejected exactly when the status is
  not \<^verbatim>\<open>'playing'\<close>, or the position is outside 0..8, or the cell at the position holds a
  mark, or the mark of the first player entry carrying the submitted id is not the current
  turn (no such entry included). A rejected move leaves the whole game object as it was,
  the handler answers 400 \<^verbatim>\<open>Invalid move\<close>, broadcasts nothing and leaves the map of games
  as it was.
\<close>

theorem move_rejected_iff:
  assumes "length (board g) = 9"
  shows "((\<not> fst (makeMove playerId position g)) =
           (status g \<noteq> Playing
            \<or> position < 0 \<or> 8 < position
            \<or> cell_marked (board g) position
            \<or> assigned_mark playerId g \<noteq> Some (currentPlayer g)))
     \<and> (\<not> fst (makeMove playerId position g) \<longrightarrow>
          snd (makeMove playerId position g) = g
          \<and> (gs gameId = Some g \<longrightarrow>
               post_move gameId playerId position gs = (Failure 400 ''Invalid move'', None, gs)))"
proof -
  have free: "(board_at (board g) position = Some None) =
      (\<not> (position < 0 \<or> 8 < position) \<and> \<not> cell_marked (board g) position)"
    using assms by (auto simp: cell_marked_def board_at_def split: option.splits)
  have "(\<not> fst (makeMove playerId position g)) =
           (status g \<noteq> Playing
            \<or> position < 0 \<or> 8 < position
            \<or> cell_marked (board g) position
            \<or> assigned_mark playerId g \<noteq> Some (currentPlayer g))"
    unfolding makeMove_iff free assigned_mark_def by blast
  moreover have "post_move gameId playerId position gs = (Failure 400 ''Invalid move'', None, gs)"
    if "\<not> fst (makeMove playerId position g)" "gs gameId = Some g"
    using that by (simp add: post_move_def makeMove_rejected map_upd_triv)
  ultimately show ?thesis by (simp add: makeMove_rejected)
qed

theorem move_rejected_iff_witness:
  "length (board demo_game) = 9
   \<and> \<not> fst (makeMove ''p1'' 9 demo_game)
   \<and> \<not> fst (makeMove ''p1'' 0 demo_game)
   \<and> \<not> fst (makeMove ''p2'' 2 demo_game)
   \<and> fst (makeMove ''p1'' 2 demo_game)
   \<and> snd (makeMove ''p1'' 0 demo_game) = demo_game"
proof -
  have h: "length (board demo_game) = 9" by code_simp
  have c1: "(8::int) < 9" by simp
  have c2: "cell_marked (board demo_game) 0" by code_simp
  have c3: "assigned_mark ''p2'' demo_game \<noteq> Some (currentPlayer demo_game)" by code_simp
  have c4: "\<not> (status demo_game \<noteq> Playing \<or> (2::int) < 0 \<or> (8::int) < 2
      \<or> cell_marked (board demo_game) 2
      \<or> assigned_mark ''p1'' demo_game \<noteq> Some (currentPlayer demo_game))" by code_simp
  show ?thesis
    using h c1 c2 c3 c4
      move_rejected_iff[OF h, of "''p1''" 9] move_rejected_iff[OF h, of "''p1''" 0]
      move_rejected_iff[OF h, of "''p2''" 2] move_rejected_iff[OF h, of "''p1''" 2]
    by simp
qed

subsection \<open>C5\<close>

text \<open>
  Claim C5 as stated says that the turn passes to the other mark after every accepted
  move. In the sample game X plays cell 2 and wins: the move is accepted, and the turn is
  still X afterwards.
\<close>

theorem turn_alternation_counterexample:
  "fst (makeMove ''p1'' 2 demo_game)
   \<and> currentPlayer demo_game = MarkX
   \<and> board (snd (makeMove ''p1'' 2 demo_game)) ! 2 = Some MarkX
   \<and> currentPlayer (snd (makeMove ''p1'' 2 demo_game)) = MarkX"
  by code_simp

text \<open>
  Claim C5, amended. After an accepted move that does not finish the game the turn is the
  other mark than the one that just played. After an accepted move that finishes the game
  (win or draw) the turn stays with the mark that just played. A rejected move does not
  change the turn.
\<close>

theorem turn_after_move:
  assumes "makeMove playerId position g = (accepted, g')"
  shows "(accepted \<and> status g' \<noteq> Finished \<longrightarrow>
            currentPlayer g' = other_mark (currentPlayer g) \<and> currentPlayer g' \<noteq> currentPlayer g)
     \<and> (accepted \<and> status g' = Finished \<longrightarrow> currentPlayer g' = currentPlayer g)
     \<and> (\<not> accepted \<longrightarrow> currentPlayer g' = currentPlayer g)"
proof (cases accepted)
  case False
  then show ?thesis using assms makeMove_rejected[of playerId position g] by simp
next
  case True
  with assms have acc: "fst (makeMove playerId position g)" by simp
  have g': "g' = snd (makeMove playerId position g)" using assms by simp
  have st: "status g = Playing" using makeMove_accepted(1)[OF acc] .
  show ?thesis
    using True st unfolding g' makeMove_result[OF acc]
    by (simp add: Let_def other_mark_neq)
qed

theorem turn_after_move_witness:
  "makeMove ''p1'' 2 demo_game = (True, snd (makeMove ''p1'' 2 demo_game))
   \<and> currentPlayer (snd (makeMove ''p1'' 2 demo_game)) = currentPlayer demo_game
   \<and> makeMove ''p1'' 5 demo_game = (True, snd (makeMove ''p1'' 5 demo_game))
   \<and> currentPlayer (snd (makeMove ''p1'' 5 demo_game)) = MarkO
   \<and> makeMove ''p2'' 5 demo_game = (False, snd (makeMove ''p2'' 5 demo_game))
   \<and> currentPlayer (snd (makeMove ''p2'' 5 demo_game)) = currentPlayer demo_game"
proof -
  have h1: "makeMove ''p1'' 2 demo_game = (True, snd (makeMove ''p1'' 2 demo_game))" by code_simp
  have s1: "status (snd (makeMove ''p1'' 2 demo_game)) = Finished" by code_simp
  have h2: "makeMove ''p1'' 5 demo_game = (True, snd (makeMove ''p1'' 5 demo_game))" by code_simp
  have s2: "status (snd (makeMove ''p1'' 5 demo_game)) \<noteq> Finished" by code_simp
  have h3: "makeMove ''p2'' 5 demo_game = (False, snd (makeMove ''p2'' 5 demo_game))" by code_simp
  have cp: "other_mark (currentPlayer demo_game) = MarkO" by code_simp
  show ?thesis
    using h1 h2 h3 s1 s2 cp turn_after_move[OF h1] turn_after_move[OF h2] turn_after_move[OF h3]
    by simp
qed

subsection \<open>C6\<close>

text \<open>
  Claim C6. For a game with two players, \<^verbatim>\<open>addPlayer\<close> returns false and leaves the
  game object (players, board, turn, status, winner and the rest) as it was; the join
  handler answers 400 \<^verbatim>\<open>Game is full\<close>, broadcasts nothing and leaves the map of games
  as it was. Whatever joins and moves are applied to a fresh game, it never has more than
  two players.
\<close>

theorem third_join_rejected:
  "(length (players g) = 2 \<longrightarrow>
      addPlayer playerId playerName g = (False, g)
      \<and> (gs gameId = Some g \<longrightarrow>
           post_join gameId playerId playerName gs = (Failure 400 ''Game is full'', None, gs)))
   \<and> length (players (run (TicTacToeGame gameId' now) ops)) \<le> 2"
proof -
  have "length (players (run (TicTacToeGame gameId' now) ops)) \<le> 2"
    using session_inv_reachable[of gameId' now ops] by (simp add: session_inv_def)
  moreover have "addPlayer playerId playerName g = (False, g)" if "length (players g) = 2"
    using that by (simp add: addPlayer_full)
  moreover have "post_join gameId playerId playerName gs = (Failure 400 ''Game is full'', None, gs)"
    if "length (players g) = 2" "gs gameId = Some g"
    using that by (simp add: post_join_def addPlayer_full map_upd_triv)
  ultimately show ?thesis by blast
qed

theorem third_join_rejected_witness:
  "length (players demo_game) = 2
   \<and> addPlayer ''p3'' ''Carol'' demo_game = (False, demo_game)
   \<and> post_join ''g1'' ''p3'' ''Carol'' [''g1'' \<mapsto> demo_game]
       = (Failure 400 ''Game is full'', None, [''g1'' \<mapsto> demo_game])
   \<and> length (players (run (TicTacToeGame ''g1'' 1000)
         (demo_ops @ [Join ''p3'' ''Carol'', Join ''p4'' ''Dan'']))) \<le> 2"
proof -
  have h: "length (players demo_game) = 2" by code_simp
  show ?thesis
    using h third_join_rejected[of demo_game "''p3''" "''Carol''" "[''g1'' \<mapsto> demo_game]" "''g1''"
        "''g1''" 1000 "demo_ops @ [Join ''p3'' ''Carol'', Join ''p4'' ''Dan'']"]
    by simp
qed

subsection \<open>C7\<close>

text \<open>
  Claim C7. A cell that holds a mark holds that same mark after any sequence of joins and
  moves, accepted or not: it is neither overwritten with the other mark nor cleared.
\<close>

theorem marked_cell_never_changes:
  "board_at (board g) i = Some (Some m) \<Longrightarrow> board_at (board (run g ops)) i = Some (Some m)"
proof (induction ops arbitrary: g)
  case Nil
  then show ?case by (simp add: run_Nil)
next
  case (Cons x ops)
  have "board_at (board (apply_op g x)) i = Some (Some m)"
    using Cons.prems by (rule apply_op_keeps_marks)
  then have "board_at (board (run (apply_op g x) ops)) i = Some (Some m)"
    by (rule Cons.IH)
  then show ?case by (simp add: run_Cons)
qed

theorem marked_cell_never_changes_witness:
  "board_at (board demo_game) 0 = Some (Some MarkX)
   \<and> board_at (board (run demo_game [Move ''p1'' 0, Move ''p2'' 0, Join ''p3'' ''Carol'', Move ''p1'' 2])) 0
       = Some (Some MarkX)"
proof -
  have h: "board_at (board demo_game) 0 = Some (Some MarkX)" by code_simp
  show ?thesis
    using h marked_cell_never_changes[OF h] by simp
qed

subsection \<open>C8\<close>

text \<open>
  Claim C8. In every game reached from a fresh one by joins and moves, a winner (a mark
  or the draw marker) is recorded if and only if the status is \<^verbatim>\<open>'finished'\<close>; while
  the status is \<^verbatim>\<open>'waiting'\<close> or \<^verbatim>\<open>'playing'\<close> the winner is \<^verbatim>\<open>null\<close>.
\<close>

theorem outcome_iff_concluded:
  "(winner (run (TicTacToeGame gameId now) ops) \<noteq> None)
     = (status (run (TicTacToeGame gameId now) ops) = Finished)"
  using session_inv_reachable[of gameId now ops] by (simp add: session_inv_def)

theorem outcome_iff_concluded_witness:
  "winner (run (TicTacToeGame ''g1'' 1000) demo_ops) = None
   \<and> status (run (TicTacToeGame ''g1'' 1000) (demo_ops @ [Move ''p1'' 2])) = Finished
   \<and> winner (run (TicTacToeGame ''g1'' 1000) (demo_ops @ [Move ''p1'' 2])) \<noteq> None"
proof -
  have s1: "status (run (TicTacToeGame ''g1'' 1000) demo_ops) \<noteq> Finished" by code_simp
  have s2: "status (run (TicTacToeGame ''g1'' 1000) (demo_ops @ [Move ''p1'' 2])) = Finished" by code_simp
  show ?thesis
    using s1 s2 outcome_iff_concluded[of "''g1''" 1000 demo_ops]
      outcome_iff_concluded[of "''g1''" 1000 "demo_ops @ [Move ''p1'' 2]"]
    by simp
qed

subsection \<open>C9\<close>

text \<open>
  Claim C9. In a game reached from a fresh one whose single player has the id \<open>playerId\<close>,
  that player holds X and the game is waiting; a further join with the same id succeeds,
  adds a second entry with the same id holding O, and sets the status to \<^verbatim>\<open>'playing'\<close>.
  The join handler answers with the snapshot of that game.
\<close>

theorem same_participant_joins_twice:
  assumes "g = run (TicTacToeGame gameId now) ops"
    and "players g = [p]" and "p_id p = playerId"
  shows "symbol p = MarkX \<and> status g = Waiting
     \<and> addPlayer playerId playerName g =
         (True, g\<lparr> players := [p, \<lparr> p_id = playerId, p_name = playerName, symbol = MarkO \<rparr>],
                   status := Playing \<rparr>)
     \<and> (gs gameId = Some g \<longrightarrow>
          fst (post_join gameId playerId playerName gs) =
            Success (getState (g\<lparr> players := [p, \<lparr> p_id = playerId, p_name = playerName, symbol = MarkO \<rparr>],
                   status := Playing \<rparr>)))"
proof -
  have inv: "session_inv g" unfolding assms(1) by (rule session_inv_reachable)
  have "symbol p = MarkX" "status g = Waiting"
    using inv assms(2) by (simp_all add: session_inv_def)
  moreover have add: "addPlayer playerId playerName g =
         (True, g\<lparr> players := [p, \<lparr> p_id = playerId, p_name = playerName, symbol = MarkO \<rparr>],
                   status := Playing \<rparr>)"
    using assms(2) by (simp add: addPlayer_def Let_def)
  moreover have "fst (post_join gameId playerId playerName gs) =
            Success (getState (g\<lparr> players := [p, \<lparr> p_id = playerId, p_name = playerName, symbol = MarkO \<rparr>],
                   status := Playing \<rparr>))" if "gs gameId = Some g"
    using that by (simp add: post_join_def add)
  ultimately show ?thesis by blast
qed

theorem same_participant_joins_twice_witness:
  "players (run (TicTacToeGame ''g1'' 1000) [Join ''p1'' ''Alice''])
     = [\<lparr> p_id = ''p1'', p_name = ''Alice'', symbol = MarkX \<rparr>]
   \<and> fst (addPlayer ''p1'' ''Alice'' (run (TicTacToeGame ''g1'' 1000) [Join ''p1'' ''Alice'']))
   \<and> players (snd (addPlayer ''p1'' ''Alice'' (run (TicTacToeGame ''g1'' 1000) [Join ''p1'' ''Alice''])))
       = [\<lparr> p_id = ''p1'', p_name = ''Alice'', symbol = MarkX \<rparr>,
          \<lparr> p_id = ''p1'', p_name = ''Alice'', symbol = MarkO \<rparr>]
   \<and> status (snd (addPlayer ''p1'' ''Alice'' (run (TicTacToeGame ''g1'' 1000) [Join ''p1'' ''Alice'']))) = Playing"
proof -
  have h: "players (run (TicTacToeGame ''g1'' 1000) [Join ''p1'' ''Alice''])
     = [\<lparr> p_id = ''p1'', p_name = ''Alice'', symbol = MarkX \<rparr>]" by code_simp
  show ?thesis
    using h same_participant_joins_twice[OF refl h refl, where playerName = "''Alice''" and gs = Map.empty]
    by simp
qed

subsection \<open>C10\<close>

text \<open>
  Claim C10. On a nine-cell board a move whose position is below 0 or above 8 is rejected
  and leaves the game object as it was; the handler answers 400 \<^verbatim>\<open>Invalid move\<close> and
  leaves the map of games as it was. An accepted move has its position in 0..8, the board
  has nine cells after any move, and every read outside 0..8 is still \<^verbatim>\<open>undefined\<close>.
\<close>

theorem out_of_range_move_rejected:
  assumes "length (board g) = 9"
  shows "(position < 0 \<or> 8 < position \<longrightarrow>
           makeMove playerId position g = (False, g)
           \<and> (gs gameId = Some g \<longrightarrow>
                post_move gameId playerId position gs = (Failure 400 ''Invalid move'', None, gs)))
     \<and> (fst (makeMove playerId position g) \<longrightarrow> 0 \<le> position \<and> position \<le> 8)
     \<and> length (board (snd (makeMove playerId position g))) = 9
     \<and> (\<forall>i. i < 0 \<or> 8 < i \<longrightarrow> board_at (board (snd (makeMove playerId position g))) i = None)"
proof -
  have rej: "makeMove playerId position g = (False, g)" if "position < 0 \<or> 8 < position"
    using that assms by (auto simp: makeMove_def board_at_def)
  have "post_move gameId playerId position gs = (Failure 400 ''Invalid move'', None, gs)"
    if "position < 0 \<or> 8 < position" "gs gameId = Some g"
    using that by (simp add: post_move_def rej map_upd_triv)
  moreover have "0 \<le> position \<and> position \<le> 8" if "fst (makeMove playerId position g)"
    using rej that by fastforce
  moreover have len: "length (board (snd (makeMove playerId position g))) = 9"
    using assms by (simp add: makeMove_fields)
  moreover have "board_at (board (snd (makeMove playerId position g))) i = None" if "i < 0 \<or> 8 < i" for i
    using that len by (auto simp: board_at_def)
  ultimately show ?thesis using rej by blast
qed

theorem out_of_range_move_rejected_witness:
  "length (board demo_game) = 9
   \<and> makeMove ''p1'' 9 demo_game = (False, demo_game)
   \<and> makeMove ''p1'' (- 1) demo_game = (False, demo_game)
   \<and> post_move ''g1'' ''p1'' 9 [''g1'' \<mapsto> demo_game]
       = (Failure 400 ''Invalid move'', None, [''g1'' \<mapsto> demo_game])
   \<and> length (board (snd (makeMove ''p1'' 2 demo_game))) = 9"
proof -
  have h: "length (board demo_game) = 9" by code_simp
  show ?thesis
    using h out_of_range_move_rejected[OF h, of 9 "''p1''" "[''g1'' \<mapsto> demo_game]" "''g1''"]
      out_of_range_move_rejected[OF h, of "- 1" "''p1''" Map.empty "''g1''"]
      out_of_range_move_rejected[OF h, of 2 "''p1''" Map.empty "''g1''"]
    by simp
qed

end
